theory Spec2Isabelle
  imports Complex_Main "HOL-Library.Char_ord" "HOL-Library.List_Lexorder"
    "HOL-Library.Product_Lexorder" "HOL-Library.Multiset"
begin

section \<open>Tiebreak extraction (05\_breakpoints\_and\_tiebreak\_computer.py)\<close>

text \<open>
  A score is a Python \<open>str\<close> or the missing value NaN of pandas; it is modelled as
  \<open>string option\<close>, \<open>None\<close> being NaN. Characters are the code points below 256.
\<close>

definition is_space :: "char \<Rightarrow> bool" where
  \<comment> \<open>\<open>str.isspace\<close> on the code points below 256\<close>
  "is_space c \<longleftrightarrow>
     (let n = (of_char c :: nat) in (9 \<le> n \<and> n \<le> 13) \<or> (28 \<le> n \<and> n \<le> 32) \<or> n = 133 \<or> n = 160)"

definition strip :: "string \<Rightarrow> string" where
  \<comment> \<open>\<open>str.strip()\<close>\<close>
  "strip s = rev (dropWhile is_space (rev (dropWhile is_space s)))"

fun split_from :: "string \<Rightarrow> string \<Rightarrow> string list" where
  \<comment> \<open>the scan of \<open>str.split()\<close>; the first argument is the current token, reversed\<close>
  "split_from cur [] = (if cur = [] then [] else [rev cur])"
| "split_from cur (c # cs) =
     (if is_space c then (if cur = [] then split_from [] cs else rev cur # split_from [] cs)
      else split_from (c # cur) cs)"

definition split :: "string \<Rightarrow> string list" where
  \<comment> \<open>\<open>str.split()\<close> with no separator: maximal runs of non-whitespace\<close>
  "split s = split_from [] s"

definition is_digit :: "char \<Rightarrow> bool" where
  \<comment> \<open>the class \<open>[0-9]\<close>\<close>
  "is_digit c \<longleftrightarrow> (let n = (of_char c :: nat) in 48 \<le> n \<and> n \<le> 57)"

definition match_paren :: "string \<Rightarrow> string option" where
  \<comment> \<open>a match of \<open>\([0-9]+\)\<close> at the head of the string; returns what follows the match\<close>
  "match_paren s =
     (case s of
        [] \<Rightarrow> None
      | c # cs \<Rightarrow>
          if c = CHR ''('' then
            (let ds = takeWhile is_digit cs; rest = dropWhile is_digit cs
             in if ds = [] then None
                else (case rest of [] \<Rightarrow> None
                      | r # rs \<Rightarrow> if r = CHR '')'' then Some rs else None))
          else None)"

lemma match_paren_shorter:
  "match_paren s = Some rest \<Longrightarrow> length rest < length s"
proof -
  assume m: "match_paren s = Some rest"
  then obtain c cs where s: "s = c # cs" by (cases s) (auto simp: match_paren_def)
  from m s obtain r where "dropWhile is_digit cs = r # rest"
    by (auto simp: match_paren_def Let_def split: if_splits list.splits)
  then have "length rest < length (dropWhile is_digit cs)" by simp
  also have "\<dots> \<le> length cs" by (rule length_dropWhile_le)
  finally show ?thesis using s by simp
qed

function re_sub_paren :: "string \<Rightarrow> string" where
  \<comment> \<open>\<open>re.sub(r'\([0-9]+\)', '', s)\<close>: every match, leftmost first, is deleted\<close>
  "re_sub_paren [] = []"
| "re_sub_paren (c # cs) =
     (case match_paren (c # cs) of
        Some rest \<Rightarrow> re_sub_paren rest
      | None \<Rightarrow> c # re_sub_paren cs)"
  by pat_completeness auto
termination
  by (relation "measure length") (auto dest: match_paren_shorter)

fun contains :: "string \<Rightarrow> string \<Rightarrow> bool" where
  \<comment> \<open>\<open>contains sub s\<close> is Python's \<open>sub in s\<close>\<close>
  "contains sub [] = (sub = [])"
| "contains sub (c # cs) = (take (length sub) (c # cs) = sub \<or> contains sub cs)"

definition count_set :: "bool \<Rightarrow> nat \<times> nat \<Rightarrow> string \<Rightarrow> nat \<times> nat" where
  \<comment> \<open>the body of the loop over the sets; the state is (tiebreaks\_won, tiebreaks\_played)\<close>
  "count_set player_won_match acc set_score =
     (let (tiebreaks_won, tiebreaks_played) = acc;
          set_main = re_sub_paren set_score
      in if contains ''7-6'' set_main then
           (if player_won_match then tiebreaks_won + 1 else tiebreaks_won, tiebreaks_played + 1)
         else if contains ''6-7'' set_main then
           (if \<not> player_won_match then tiebreaks_won + 1 else tiebreaks_won, tiebreaks_played + 1)
         else (tiebreaks_won, tiebreaks_played))"

definition count_tiebreaks_in_score :: "string option \<Rightarrow> bool \<Rightarrow> nat \<times> nat" where
  "count_tiebreaks_in_score score player_won_match =
     (case score of
        None \<Rightarrow> (0, 0)
      | Some s \<Rightarrow>
          if s = [] then (0, 0)
          else foldl (count_set player_won_match) (0, 0) (split (strip s)))"


section \<open>Match records and the chronological order\<close>

text \<open>
  One row of the data frame, with the columns the statistics read. A numeric cell that
  may be empty is an \<open>option\<close>, \<open>None\<close> being NaN.
\<close>

record match_row =
  tournament_date :: int
  match_number :: int
  tournament_year :: int
  winner_player_name :: string
  loser_player_name :: string
  court_surface :: string
  final_score :: "string option"
  winner_break_points_saved :: "int option"
  winner_break_points_faced :: "int option"
  loser_break_points_saved :: "int option"
  loser_break_points_faced :: "int option"
  winner_first_serves_in :: "int option"
  winner_serve_points_total :: "int option"
  winner_aces :: "int option"
  winner_double_faults :: "int option"
  winner_service_games :: "int option"
  loser_first_serves_in :: "int option"
  loser_serve_points_total :: "int option"
  loser_aces :: "int option"
  loser_double_faults :: "int option"
  loser_service_games :: "int option"
  winner_atp_rank :: "int option"
  loser_atp_rank :: "int option"

definition plain_row :: "int \<Rightarrow> int \<Rightarrow> int \<Rightarrow> string \<Rightarrow> string \<Rightarrow> string \<Rightarrow> string option \<Rightarrow> match_row" where
  \<comment> \<open>a row whose box-score cells are all empty\<close>
  "plain_row d n y w l surf sc =
     \<lparr>tournament_date = d, match_number = n, tournament_year = y,
      winner_player_name = w, loser_player_name = l, court_surface = surf, final_score = sc,
      winner_break_points_saved = None, winner_break_points_faced = None,
      loser_break_points_saved = None, loser_break_points_faced = None,
      winner_first_serves_in = None, winner_serve_points_total = None, winner_aces = None,
      winner_double_faults = None, winner_service_games = None,
      loser_first_serves_in = None, loser_serve_points_total = None, loser_aces = None,
      loser_double_faults = None, loser_service_games = None,
      winner_atp_rank = None, loser_atp_rank = None\<rparr>"

definition sort_columns :: "match_row \<Rightarrow> int \<times> int" where
  "sort_columns r = (tournament_date r, match_number r)"

definition sort_values :: "match_row list \<Rightarrow> match_row list" where
  \<comment> \<open>\<open>df.sort_values(['tournament_date', 'match_number'])\<close>: pandas sorts several
      columns lexicographically with a stable sort, so equal keys keep their read order\<close>
  "sort_values df = sort_key sort_columns df"

fun iterrows :: "('s \<Rightarrow> 'r \<Rightarrow> 'o \<times> 's) \<Rightarrow> 's \<Rightarrow> 'r list \<Rightarrow> 'o list" where
  \<comment> \<open>the loop \<open>for idx, row in df_sorted.iterrows()\<close>: each pass reads the trackers,
      appends one entry to the output lists and then updates the trackers\<close>
  "iterrows step st [] = []"
| "iterrows step st (r # rs) = (let (out, st') = step st r in out # iterrows step st' rs)"

definition trackers_after :: "('s \<Rightarrow> 'r \<Rightarrow> 'o \<times> 's) \<Rightarrow> 's \<Rightarrow> 'r list \<Rightarrow> 's" where
  \<comment> \<open>the trackers once the loop has passed the given rows\<close>
  "trackers_after step st rs = foldl (\<lambda>s r. snd (step s r)) st rs"

definition add_to :: "('k \<Rightarrow> 'v::plus) \<Rightarrow> 'k \<Rightarrow> 'v \<Rightarrow> ('k \<Rightarrow> 'v)" where
  \<comment> \<open>\<open>d[k] += v\<close> on a \<open>defaultdict\<close>, read as a total function\<close>
  "add_to d k v = d(k := d k + v)"

definition add_to2 :: "('p \<Rightarrow> 'y \<Rightarrow> 'v::plus) \<Rightarrow> 'p \<Rightarrow> 'y \<Rightarrow> 'v \<Rightarrow> ('p \<Rightarrow> 'y \<Rightarrow> 'v)" where
  \<comment> \<open>\<open>d[p][y] += v\<close> on a nested \<open>defaultdict\<close>\<close>
  "add_to2 d p y v = d(p := (d p)(y := d p y + v))"

definition notna_or_0 :: "int option \<Rightarrow> int" where
  \<comment> \<open>\<open>x if pd.notna(x) else 0\<close>\<close>
  "notna_or_0 x = (case x of None \<Rightarrow> 0 | Some v \<Rightarrow> v)"

datatype py_error = ValueError | ZeroDivisionError

definition truediv :: "int \<Rightarrow> int \<Rightarrow> py_error + real" where
  \<comment> \<open>Python's \<open>a / b\<close> on numbers: a zero divisor raises\<close>
  "truediv a b = (if b = 0 then Inl ZeroDivisionError else Inr (real_of_int a / real_of_int b))"

definition pct_expr :: "int \<Rightarrow> int \<Rightarrow> py_error + real" where
  \<comment> \<open>the expression \<open>(won / total * 100) if total > 0 else 0.0\<close> as Python evaluates
      it: the division is evaluated only in the first branch\<close>
  "pct_expr won tot =
     (if tot > 0 then (case truediv won tot of Inl e \<Rightarrow> Inl e | Inr q \<Rightarrow> Inr (q * 100)) else Inr 0)"

definition rate_expr :: "int \<Rightarrow> int \<Rightarrow> py_error + real" where
  \<comment> \<open>the expression \<open>(count / games) if games > 0 else 0.0\<close> as Python evaluates it\<close>
  "rate_expr cnt games = (if games > 0 then truediv cnt games else Inr 0)"

definition pct :: "int \<Rightarrow> int \<Rightarrow> real" where
  \<comment> \<open>the value of \<open>(won / total * 100) if total > 0 else 0.0\<close>, floats read as reals;
      \<open>pct_expr\<close> never raises and returns this value\<close>
  "pct won tot = (if tot > 0 then real_of_int won / real_of_int tot * 100 else 0)"

definition rate :: "int \<Rightarrow> int \<Rightarrow> real" where
  \<comment> \<open>the value of \<open>(count / games) if games > 0 else 0.0\<close>\<close>
  "rate cnt games = (if games > 0 then real_of_int cnt / real_of_int games else 0)"

definition round_half_even :: "real \<Rightarrow> int" where
  "round_half_even x =
     (let f = \<lfloor>x\<rfloor>; d = x - real_of_int f
      in if d < 1 / 2 then f else if d > 1 / 2 then f + 1 else if even f then f else f + 1)"

definition round2 :: "real \<Rightarrow> real" where
  \<comment> \<open>\<open>round(x, 2)\<close>\<close>
  "round2 x = real_of_int (round_half_even (x * 100)) / 100"

section \<open>Year-to-date and head-to-head records (04\_win\_computer.py)\<close>

record yearly_trackers =
  yearly_wins :: "string \<Rightarrow> int \<Rightarrow> nat"
  yearly_losses :: "string \<Rightarrow> int \<Rightarrow> nat"

record yearly_columns =
  winner_wins_ytd :: nat
  winner_losses_ytd :: nat
  winner_win_pct_ytd :: real
  loser_wins_ytd :: nat
  loser_losses_ytd :: nat
  loser_win_pct_ytd :: real

definition yearly_start :: yearly_trackers where
  \<comment> \<open>\<open>defaultdict(lambda: defaultdict(int))\<close>: every key reads 0 until written\<close>
  "yearly_start = \<lparr>yearly_wins = (\<lambda>_ _. 0), yearly_losses = (\<lambda>_ _. 0)\<rparr>"

definition yearly_step :: "yearly_trackers \<Rightarrow> match_row \<Rightarrow> yearly_columns \<times> yearly_trackers" where
  "yearly_step st row =
     (let year = tournament_year row;
          winner = winner_player_name row;
          loser = loser_player_name row;
          winner_wins_before = yearly_wins st winner year;
          winner_losses_before = yearly_losses st winner year;
          loser_wins_before = yearly_wins st loser year;
          loser_losses_before = yearly_losses st loser year;
          winner_total_before = winner_wins_before + winner_losses_before;
          loser_total_before = loser_wins_before + loser_losses_before;
          winner_pct_before = pct (int winner_wins_before) (int winner_total_before);
          loser_pct_before = pct (int loser_wins_before) (int loser_total_before);
          out = \<lparr>winner_wins_ytd = winner_wins_before,
                 winner_losses_ytd = winner_losses_before,
                 winner_win_pct_ytd = round2 winner_pct_before,
                 loser_wins_ytd = loser_wins_before,
                 loser_losses_ytd = loser_losses_before,
                 loser_win_pct_ytd = round2 loser_pct_before\<rparr>;
          st1 = st\<lparr>yearly_wins := add_to2 (yearly_wins st) winner year 1\<rparr>;
          st2 = st1\<lparr>yearly_losses := add_to2 (yearly_losses st1) loser year 1\<rparr>
      in (out, st2))"

definition compute_yearly_stats :: "match_row list \<Rightarrow> yearly_columns list" where
  \<comment> \<open>the new columns, row by row, of the sorted frame \<open>sort_values df\<close>\<close>
  "compute_yearly_stats df = iterrows yearly_step yearly_start (sort_values df)"

record h2h_columns =
  winner_h2h_wins :: nat
  winner_h2h_losses :: nat
  loser_h2h_wins :: nat
  loser_h2h_losses :: nat

definition h2h_start :: "string \<times> string \<Rightarrow> nat \<times> nat" where
  \<comment> \<open>\<open>defaultdict(lambda: [0, 0])\<close>\<close>
  "h2h_start = (\<lambda>_. (0, 0))"

definition h2h_step ::
  "(string \<times> string \<Rightarrow> nat \<times> nat) \<Rightarrow> match_row \<Rightarrow> h2h_columns \<times> (string \<times> string \<Rightarrow> nat \<times> nat)" where
  "h2h_step h2h_records row =
     (let winner = winner_player_name row;
          loser = loser_player_name row;
          winner_is_first = (winner < loser);
          h2h_key = (if winner_is_first then (winner, loser) else (loser, winner));
          current_record = h2h_records h2h_key;
          out = (if winner_is_first
                 then \<lparr>winner_h2h_wins = fst current_record,
                       winner_h2h_losses = snd current_record,
                       loser_h2h_wins = snd current_record,
                       loser_h2h_losses = fst current_record\<rparr>
                 else \<lparr>winner_h2h_wins = snd current_record,
                       winner_h2h_losses = fst current_record,
                       loser_h2h_wins = fst current_record,
                       loser_h2h_losses = snd current_record\<rparr>);
          records' = (if winner_is_first
                      then h2h_records(h2h_key := (fst current_record + 1, snd current_record))
                      else h2h_records(h2h_key := (fst current_record, snd current_record + 1)))
      in (out, records'))"

definition compute_h2h_stats :: "match_row list \<Rightarrow> h2h_columns list" where
  "compute_h2h_stats df = iterrows h2h_step h2h_start (sort_values df)"


section \<open>Breakpoints and tiebreaks (05\_breakpoints\_and\_tiebreak\_computer.py)\<close>

record bp_tb_trackers =
  career_bp_won :: "string \<Rightarrow> int"
  career_bp_faced :: "string \<Rightarrow> int"
  career_tb_won :: "string \<Rightarrow> nat"
  career_tb_played :: "string \<Rightarrow> nat"
  yearly_bp_won :: "string \<Rightarrow> int \<Rightarrow> int"
  yearly_bp_faced :: "string \<Rightarrow> int \<Rightarrow> int"
  yearly_tb_won :: "string \<Rightarrow> int \<Rightarrow> nat"
  yearly_tb_played :: "string \<Rightarrow> int \<Rightarrow> nat"

record bp_tb_columns =
  winner_bp_won_ytd :: int
  winner_bp_faced_ytd :: int
  winner_bp_pct_ytd :: real
  loser_bp_won_ytd :: int
  loser_bp_faced_ytd :: int
  loser_bp_pct_ytd :: real
  winner_bp_won_career :: int
  winner_bp_faced_career :: int
  winner_bp_pct_career :: real
  loser_bp_won_career :: int
  loser_bp_faced_career :: int
  loser_bp_pct_career :: real
  winner_tb_won_ytd :: nat
  winner_tb_played_ytd :: nat
  winner_tb_pct_ytd :: real
  loser_tb_won_ytd :: nat
  loser_tb_played_ytd :: nat
  loser_tb_pct_ytd :: real
  winner_tb_won_career :: nat
  winner_tb_played_career :: nat
  winner_tb_pct_career :: real
  loser_tb_won_career :: nat
  loser_tb_played_career :: nat
  loser_tb_pct_career :: real

definition bp_tb_start :: bp_tb_trackers where
  "bp_tb_start =
     \<lparr>career_bp_won = (\<lambda>_. 0), career_bp_faced = (\<lambda>_. 0),
      career_tb_won = (\<lambda>_. 0), career_tb_played = (\<lambda>_. 0),
      yearly_bp_won = (\<lambda>_ _. 0), yearly_bp_faced = (\<lambda>_ _. 0),
      yearly_tb_won = (\<lambda>_ _. 0), yearly_tb_played = (\<lambda>_ _. 0)\<rparr>"

definition bp_tb_read :: "bp_tb_trackers \<Rightarrow> match_row \<Rightarrow> bp_tb_columns" where
  \<comment> \<open>the values before the match and the percentages derived from them\<close>
  "bp_tb_read st row =
     (let year = tournament_year row;
          winner = winner_player_name row;
          loser = loser_player_name row
      in \<lparr>winner_bp_won_ytd = yearly_bp_won st winner year,
           winner_bp_faced_ytd = yearly_bp_faced st winner year,
           winner_bp_pct_ytd = round2 (pct (yearly_bp_won st winner year) (yearly_bp_faced st winner year)),
           loser_bp_won_ytd = yearly_bp_won st loser year,
           loser_bp_faced_ytd = yearly_bp_faced st loser year,
           loser_bp_pct_ytd = round2 (pct (yearly_bp_won st loser year) (yearly_bp_faced st loser year)),
           winner_bp_won_career = career_bp_won st winner,
           winner_bp_faced_career = career_bp_faced st winner,
           winner_bp_pct_career = round2 (pct (career_bp_won st winner) (career_bp_faced st winner)),
           loser_bp_won_career = career_bp_won st loser,
           loser_bp_faced_career = career_bp_faced st loser,
           loser_bp_pct_career = round2 (pct (career_bp_won st loser) (career_bp_faced st loser)),
           winner_tb_won_ytd = yearly_tb_won st winner year,
           winner_tb_played_ytd = yearly_tb_played st winner year,
           winner_tb_pct_ytd =
             round2 (pct (int (yearly_tb_won st winner year)) (int (yearly_tb_played st winner year))),
           loser_tb_won_ytd = yearly_tb_won st loser year,
           loser_tb_played_ytd = yearly_tb_played st loser year,
           loser_tb_pct_ytd =
             round2 (pct (int (yearly_tb_won st loser year)) (int (yearly_tb_played st loser year))),
           winner_tb_won_career = career_tb_won st winner,
           winner_tb_played_career = career_tb_played st winner,
           winner_tb_pct_career =
             round2 (pct (int (career_tb_won st winner)) (int (career_tb_played st winner))),
           loser_tb_won_career = career_tb_won st loser,
           loser_tb_played_career = career_tb_played st loser,
           loser_tb_pct_career =
             round2 (pct (int (career_tb_won st loser)) (int (career_tb_played st loser)))\<rparr>)"

definition bp_tb_update :: "bp_tb_trackers \<Rightarrow> match_row \<Rightarrow> bp_tb_trackers" where
  \<comment> \<open>the \<open>+=\<close> statements after the values are recorded, in the order of the source\<close>
  "bp_tb_update st row =
     (let year = tournament_year row;
          winner = winner_player_name row;
          loser = loser_player_name row;
          score = final_score row;
          winner_bp_saved = notna_or_0 (winner_break_points_saved row);
          winner_bp_faced_match = notna_or_0 (winner_break_points_faced row);
          loser_bp_saved = notna_or_0 (loser_break_points_saved row);
          loser_bp_faced_match = notna_or_0 (loser_break_points_faced row);
          (winner_tb_won_match, winner_tb_played_match) = count_tiebreaks_in_score score True;
          (loser_tb_won_match, loser_tb_played_match) = count_tiebreaks_in_score score False;
          s1 = st\<lparr>yearly_bp_won := add_to2 (yearly_bp_won st) winner year winner_bp_saved\<rparr>;
          s2 = s1\<lparr>yearly_bp_faced := add_to2 (yearly_bp_faced s1) winner year winner_bp_faced_match\<rparr>;
          s3 = s2\<lparr>yearly_bp_won := add_to2 (yearly_bp_won s2) loser year loser_bp_saved\<rparr>;
          s4 = s3\<lparr>yearly_bp_faced := add_to2 (yearly_bp_faced s3) loser year loser_bp_faced_match\<rparr>;
          s5 = s4\<lparr>yearly_tb_won := add_to2 (yearly_tb_won s4) winner year winner_tb_won_match\<rparr>;
          s6 = s5\<lparr>yearly_tb_played := add_to2 (yearly_tb_played s5) winner year winner_tb_played_match\<rparr>;
          s7 = s6\<lparr>yearly_tb_won := add_to2 (yearly_tb_won s6) loser year loser_tb_won_match\<rparr>;
          s8 = s7\<lparr>yearly_tb_played := add_to2 (yearly_tb_played s7) loser year loser_tb_played_match\<rparr>;
          s9 = s8\<lparr>career_bp_won := add_to (career_bp_won s8) winner winner_bp_saved\<rparr>;
          s10 = s9\<lparr>career_bp_faced := add_to (career_bp_faced s9) winner winner_bp_faced_match\<rparr>;
          s11 = s10\<lparr>career_bp_won := add_to (career_bp_won s10) loser loser_bp_saved\<rparr>;
          s12 = s11\<lparr>career_bp_faced := add_to (career_bp_faced s11) loser loser_bp_faced_match\<rparr>;
          s13 = s12\<lparr>career_tb_won := add_to (career_tb_won s12) winner winner_tb_won_match\<rparr>;
          s14 = s13\<lparr>career_tb_played := add_to (career_tb_played s13) winner winner_tb_played_match\<rparr>;
          s15 = s14\<lparr>career_tb_won := add_to (career_tb_won s14) loser loser_tb_won_match\<rparr>;
          s16 = s15\<lparr>career_tb_played := add_to (career_tb_played s15) loser loser_tb_played_match\<rparr>
      in s16)"

definition bp_tb_step :: "bp_tb_trackers \<Rightarrow> match_row \<Rightarrow> bp_tb_columns \<times> bp_tb_trackers" where
  "bp_tb_step st row = (bp_tb_read st row, bp_tb_update st row)"

definition compute_breakpoint_and_tiebreak_stats :: "match_row list \<Rightarrow> bp_tb_columns list" where
  "compute_breakpoint_and_tiebreak_stats df = iterrows bp_tb_step bp_tb_start (sort_values df)"


section \<open>Surface records, recent form, fatigue, serve rates (06\_features\_adder.py)\<close>

record surface_columns =
  winner_clay_wins :: nat
  winner_clay_losses :: nat
  winner_clay_win_pct :: real
  winner_grass_wins :: nat
  winner_grass_losses :: nat
  winner_grass_win_pct :: real
  winner_hard_wins :: nat
  winner_hard_losses :: nat
  winner_hard_win_pct :: real
  loser_clay_wins :: nat
  loser_clay_losses :: nat
  loser_clay_win_pct :: real
  loser_grass_wins :: nat
  loser_grass_losses :: nat
  loser_grass_win_pct :: real
  loser_hard_wins :: nat
  loser_hard_losses :: nat
  loser_hard_win_pct :: real

definition calc_pct :: "nat \<Rightarrow> nat \<Rightarrow> real" where
  "calc_pct wins losses = (let tot = wins + losses in pct (int wins) (int tot))"

definition surface_start :: "string \<Rightarrow> string \<Rightarrow> nat \<times> nat" where
  \<comment> \<open>\<open>defaultdict(lambda: defaultdict(lambda: [0, 0]))\<close>: player, surface, [wins, losses]\<close>
  "surface_start = (\<lambda>_ _. (0, 0))"

definition surface_step ::
  "(string \<Rightarrow> string \<Rightarrow> nat \<times> nat) \<Rightarrow> match_row \<Rightarrow> surface_columns \<times> (string \<Rightarrow> string \<Rightarrow> nat \<times> nat)" where
  "surface_step surface_stats row =
     (let winner = winner_player_name row;
          loser = loser_player_name row;
          surface = court_surface row;
          w_clay = surface_stats winner ''Clay'';
          w_grass = surface_stats winner ''Grass'';
          w_hard = surface_stats winner ''Hard'';
          l_clay = surface_stats loser ''Clay'';
          l_grass = surface_stats loser ''Grass'';
          l_hard = surface_stats loser ''Hard'';
          out = \<lparr>winner_clay_wins = fst w_clay, winner_clay_losses = snd w_clay,
                 winner_clay_win_pct = round2 (calc_pct (fst w_clay) (snd w_clay)),
                 winner_grass_wins = fst w_grass, winner_grass_losses = snd w_grass,
                 winner_grass_win_pct = round2 (calc_pct (fst w_grass) (snd w_grass)),
                 winner_hard_wins = fst w_hard, winner_hard_losses = snd w_hard,
                 winner_hard_win_pct = round2 (calc_pct (fst w_hard) (snd w_hard)),
                 loser_clay_wins = fst l_clay, loser_clay_losses = snd l_clay,
                 loser_clay_win_pct = round2 (calc_pct (fst l_clay) (snd l_clay)),
                 loser_grass_wins = fst l_grass, loser_grass_losses = snd l_grass,
                 loser_grass_win_pct = round2 (calc_pct (fst l_grass) (snd l_grass)),
                 loser_hard_wins = fst l_hard, loser_hard_losses = snd l_hard,
                 loser_hard_win_pct = round2 (calc_pct (fst l_hard) (snd l_hard))\<rparr>;
          s1 = surface_stats(winner := (surface_stats winner)
                 (surface := (fst (surface_stats winner surface) + 1, snd (surface_stats winner surface))));
          s2 = s1(loser := (s1 loser)(surface := (fst (s1 loser surface), snd (s1 loser surface) + 1)))
      in (out, s2))"

definition compute_surface_specific_stats :: "match_row list \<Rightarrow> surface_columns list" where
  "compute_surface_specific_stats df = iterrows surface_step surface_start (sort_values df)"

record form_columns =
  winner_last5_wins :: int
  winner_last10_wins :: int
  loser_last5_wins :: int
  loser_last10_wins :: int

definition last_n :: "nat \<Rightarrow> 'a list \<Rightarrow> 'a list" where
  \<comment> \<open>the slice \<open>xs[-n:]\<close> for \<open>n > 0\<close>: the whole list when it is shorter than \<open>n\<close>\<close>
  "last_n n xs = drop (length xs - n) xs"

definition form_start :: "string \<Rightarrow> int list" where
  \<comment> \<open>\<open>defaultdict(list)\<close>\<close>
  "form_start = (\<lambda>_. [])"

definition form_step :: "(string \<Rightarrow> int list) \<Rightarrow> match_row \<Rightarrow> form_columns \<times> (string \<Rightarrow> int list)" where
  "form_step recent_results row =
     (let winner = winner_player_name row;
          loser = loser_player_name row;
          w_results = recent_results winner;
          l_results = recent_results loser;
          out = \<lparr>winner_last5_wins = sum_list (last_n 5 w_results),
                 winner_last10_wins = sum_list (last_n 10 w_results),
                 loser_last5_wins = sum_list (last_n 5 l_results),
                 loser_last10_wins = sum_list (last_n 10 l_results)\<rparr>;
          r1 = recent_results(winner := recent_results winner @ [1]);
          r2 = r1(loser := r1 loser @ [0])
      in (out, r2))"

definition compute_recent_form :: "match_row list \<Rightarrow> form_columns list" where
  "compute_recent_form df = iterrows form_step form_start (sort_values df)"

subsection \<open>Dates\<close>

definition is_leap :: "int \<Rightarrow> bool" where
  "is_leap y \<longleftrightarrow> y mod 4 = 0 \<and> (y mod 100 \<noteq> 0 \<or> y mod 400 = 0)"

definition days_in_month :: "int \<Rightarrow> int \<Rightarrow> int" where
  "days_in_month y m =
     (if m = 2 then (if is_leap y then 29 else 28)
      else if m = 4 \<or> m = 6 \<or> m = 9 \<or> m = 11 then 30 else 31)"

definition days_before_year :: "int \<Rightarrow> int" where
  "days_before_year y = (let p = y - 1 in p * 365 + p div 4 - p div 100 + p div 400)"

definition days_before_month :: "int \<Rightarrow> int \<Rightarrow> int" where
  "days_before_month y m = sum_list (map (days_in_month y) [1..m - 1])"

definition toordinal :: "int \<Rightarrow> int \<Rightarrow> int \<Rightarrow> int" where
  \<comment> \<open>the day number of a calendar date, counted from 0001-01-01 as day 1\<close>
  "toordinal y m d = days_before_year y + days_before_month y m + d"

definition to_datetime :: "int \<Rightarrow> py_error + int" where
  \<comment> \<open>\<open>pd.to_datetime(str(n), format='%Y%m%d')\<close> on the numeric dates YYYYMMDD of the
      input: the midnight timestamp of an eight-digit calendar date, given by its day
      number. A number that is not such a date inside the range of a nanosecond timestamp
      (1677-09-22 to 2262-04-11) is taken to raise; the statements below are about tables
      whose dates all convert\<close>
  "to_datetime n =
     (let y = n div 10000; m = n div 100 mod 100; d = n mod 100
      in if 16770922 \<le> n \<and> n \<le> 22620411 \<and> 1 \<le> m \<and> m \<le> 12 \<and> 1 \<le> d \<and> d \<le> days_in_month y m
         then Inr (toordinal y m d) else Inl ValueError)"

record fatigue_trackers =
  last_match_date :: "string \<rightharpoonup> int"
  total_matches :: "string \<Rightarrow> nat"

record fatigue_columns =
  winner_days_since_last_match :: "int option"
  loser_days_since_last_match :: "int option"
  winner_career_matches :: nat
  loser_career_matches :: nat

definition fatigue_start :: fatigue_trackers where
  "fatigue_start = \<lparr>last_match_date = Map.empty, total_matches = (\<lambda>_. 0)\<rparr>"

definition days_since :: "(string \<rightharpoonup> int) \<Rightarrow> string \<Rightarrow> int \<Rightarrow> int option" where
  \<comment> \<open>\<open>(match_date - last_match_date[p]).days\<close> if \<open>p in last_match_date\<close>, else NaN\<close>
  "days_since lmd p match_date = (case lmd p of Some prev \<Rightarrow> Some (match_date - prev) | None \<Rightarrow> None)"

definition fatigue_step :: "fatigue_trackers \<Rightarrow> match_row \<Rightarrow> py_error + fatigue_columns \<times> fatigue_trackers" where
  "fatigue_step st row =
     (let winner = winner_player_name row;
          loser = loser_player_name row
      in case to_datetime (tournament_date row) of
           Inl e \<Rightarrow> Inl e
         | Inr match_date \<Rightarrow>
             (let out = \<lparr>winner_days_since_last_match = days_since (last_match_date st) winner match_date,
                         loser_days_since_last_match = days_since (last_match_date st) loser match_date,
                         winner_career_matches = total_matches st winner,
                         loser_career_matches = total_matches st loser\<rparr>;
                  s1 = st\<lparr>last_match_date := (last_match_date st)(winner \<mapsto> match_date)\<rparr>;
                  s2 = s1\<lparr>last_match_date := (last_match_date s1)(loser \<mapsto> match_date)\<rparr>;
                  s3 = s2\<lparr>total_matches := add_to (total_matches s2) winner 1\<rparr>;
                  s4 = s3\<lparr>total_matches := add_to (total_matches s3) loser 1\<rparr>
              in Inr (out, s4)))"

fun fatigue_loop :: "fatigue_trackers \<Rightarrow> match_row list \<Rightarrow> py_error + fatigue_columns list" where
  \<comment> \<open>the loop over the rows; an exception ends the whole call\<close>
  "fatigue_loop st [] = Inr []"
| "fatigue_loop st (r # rs) =
     (case fatigue_step st r of
        Inl e \<Rightarrow> Inl e
      | Inr (out, st') \<Rightarrow>
          (case fatigue_loop st' rs of Inl e \<Rightarrow> Inl e | Inr outs \<Rightarrow> Inr (out # outs)))"

definition compute_fatigue_and_experience :: "match_row list \<Rightarrow> py_error + fatigue_columns list" where
  "compute_fatigue_and_experience df = fatigue_loop fatigue_start (sort_values df)"

subsection \<open>Serve rates\<close>

record serve_totals =
  first_serves_in :: int
  first_serves_total :: int
  aces :: int
  dfs :: int
  service_games :: int

record serve_columns =
  winner_first_serve_pct_career :: real
  winner_aces_per_service_game :: real
  winner_df_per_service_game :: real
  loser_first_serve_pct_career :: real
  loser_aces_per_service_game :: real
  loser_df_per_service_game :: real

definition serve_start :: "string \<Rightarrow> serve_totals" where
  \<comment> \<open>\<open>defaultdict(lambda: [0, 0, 0, 0, 0])\<close>\<close>
  "serve_start = (\<lambda>_. \<lparr>first_serves_in = 0, first_serves_total = 0, aces = 0, dfs = 0, service_games = 0\<rparr>)"

definition add_serve :: "serve_totals \<Rightarrow> int \<Rightarrow> int \<Rightarrow> int \<Rightarrow> int \<Rightarrow> int \<Rightarrow> serve_totals" where
  "add_serve t a b c d e =
     \<lparr>first_serves_in = first_serves_in t + a, first_serves_total = first_serves_total t + b,
      aces = aces t + c, dfs = dfs t + d, service_games = service_games t + e\<rparr>"

definition serve_step :: "(string \<Rightarrow> serve_totals) \<Rightarrow> match_row \<Rightarrow> serve_columns \<times> (string \<Rightarrow> serve_totals)" where
  "serve_step serve_stats row =
     (let winner = winner_player_name row;
          loser = loser_player_name row;
          w_first_in = notna_or_0 (winner_first_serves_in row);
          w_serve_pts = notna_or_0 (winner_serve_points_total row);
          w_aces = notna_or_0 (winner_aces row);
          w_dfs = notna_or_0 (winner_double_faults row);
          w_service_games = notna_or_0 (winner_service_games row);
          l_first_in = notna_or_0 (loser_first_serves_in row);
          l_serve_pts = notna_or_0 (loser_serve_points_total row);
          l_aces = notna_or_0 (loser_aces row);
          l_dfs = notna_or_0 (loser_double_faults row);
          l_service_games = notna_or_0 (loser_service_games row);
          w_stats = serve_stats winner;
          l_stats = serve_stats loser;
          out = \<lparr>winner_first_serve_pct_career =
                   round2 (pct (first_serves_in w_stats) (first_serves_total w_stats)),
                 winner_aces_per_service_game = round2 (rate (aces w_stats) (service_games w_stats)),
                 winner_df_per_service_game = round2 (rate (dfs w_stats) (service_games w_stats)),
                 loser_first_serve_pct_career =
                   round2 (pct (first_serves_in l_stats) (first_serves_total l_stats)),
                 loser_aces_per_service_game = round2 (rate (aces l_stats) (service_games l_stats)),
                 loser_df_per_service_game = round2 (rate (dfs l_stats) (service_games l_stats))\<rparr>;
          s1 = serve_stats(winner :=
                 add_serve (serve_stats winner) w_first_in w_serve_pts w_aces w_dfs w_service_games);
          s2 = s1(loser := add_serve (s1 loser) l_first_in l_serve_pts l_aces l_dfs l_service_games)
      in (out, s2))"

definition compute_serve_stats :: "match_row list \<Rightarrow> serve_columns list" where
  "compute_serve_stats df = iterrows serve_step serve_start (sort_values df)"

subsection \<open>Derived features\<close>

definition gt_nan :: "int option \<Rightarrow> int option \<Rightarrow> bool" where
  \<comment> \<open>\<open>>\<close> on a float column: a comparison with NaN is False\<close>
  "gt_nan a b = (case a of None \<Rightarrow> False | Some x \<Rightarrow> (case b of None \<Rightarrow> False | Some y \<Rightarrow> x > y))"

definition astype_int :: "bool \<Rightarrow> int" where
  "astype_int b = (if b then 1 else 0)"

definition is_upset :: "match_row \<Rightarrow> int" where
  \<comment> \<open>\<open>(df['winner_atp_rank'] > df['loser_atp_rank']).astype(int)\<close>, for one row\<close>
  "is_upset row = astype_int (gt_nan (winner_atp_rank row) (loser_atp_rank row))"


section \<open>Vocabulary of the statements\<close>

definition has_76 :: "string \<Rightarrow> bool" where
  \<comment> \<open>the test \<open>'7-6' in set_main\<close> of a set token\<close>
  "has_76 set_score = contains ''7-6'' (re_sub_paren set_score)"

definition has_67 :: "string \<Rightarrow> bool" where
  \<comment> \<open>the test \<open>'6-7' in set_main\<close> of a set token\<close>
  "has_67 set_score = contains ''6-7'' (re_sub_paren set_score)"

definition credited :: "bool \<Rightarrow> string \<Rightarrow> bool" where
  \<comment> \<open>the set tokens for which the loop adds to \<open>tiebreaks_won\<close>\<close>
  "credited player_won_match set_score =
     (if player_won_match then has_76 set_score else \<not> has_76 set_score \<and> has_67 set_score)"

definition tiebreak_set :: "string \<Rightarrow> bool" where
  \<comment> \<open>the set tokens for which the loop adds to \<open>tiebreaks_played\<close>\<close>
  "tiebreak_set set_score \<longleftrightarrow> has_76 set_score \<or> has_67 set_score"

definition won_by :: "string \<Rightarrow> int \<Rightarrow> match_row \<Rightarrow> bool" where
  \<comment> \<open>a match of year \<open>y\<close> that \<open>p\<close> won\<close>
  "won_by p y r \<longleftrightarrow> winner_player_name r = p \<and> tournament_year r = y"

definition lost_by :: "string \<Rightarrow> int \<Rightarrow> match_row \<Rightarrow> bool" where
  \<comment> \<open>a match of year \<open>y\<close> that \<open>p\<close> lost\<close>
  "lost_by p y r \<longleftrightarrow> loser_player_name r = p \<and> tournament_year r = y"

definition appears :: "string \<Rightarrow> int \<Rightarrow> match_row \<Rightarrow> bool" where
  \<comment> \<open>a match of year \<open>y\<close> in which \<open>p\<close> appears, as winner or loser\<close>
  "appears p y r \<longleftrightarrow>
     tournament_year r = y \<and> (winner_player_name r = p \<or> loser_player_name r = p)"

definition meeting :: "string \<Rightarrow> string \<Rightarrow> match_row \<Rightarrow> bool" where
  \<comment> \<open>a match between \<open>a\<close> and \<open>b\<close>\<close>
  "meeting a b r \<longleftrightarrow>
     (winner_player_name r = a \<and> loser_player_name r = b) \<or>
     (winner_player_name r = b \<and> loser_player_name r = a)"

definition pair_key :: "string \<Rightarrow> string \<Rightarrow> string \<times> string" where
  \<comment> \<open>the key \<open>h2h_key\<close> that the head-to-head loop builds for a winner and a loser\<close>
  "pair_key winner loser = (if winner < loser then (winner, loser) else (loser, winner))"

definition h2h_total :: "(string \<times> string \<Rightarrow> nat \<times> nat) \<Rightarrow> string \<times> string \<Rightarrow> nat" where
  \<comment> \<open>the two entries of a head-to-head record, added\<close>
  "h2h_total h2h_records k = fst (h2h_records k) + snd (h2h_records k)"

definition scenario_rows :: "match_row list" where
  \<comment> \<open>A beats B, A beats C, A loses to B, read in another order\<close>
  "scenario_rows =
     [plain_row 20200301 1 2020 ''B'' ''A'' ''Hard'' (Some ''6-7(3) 7-6(2) 6-1''),
      plain_row 20200101 1 2020 ''A'' ''B'' ''Hard'' (Some ''7-6(3) 6-1''),
      plain_row 20200201 1 2020 ''A'' ''C'' ''Clay'' None]"

definition same_name_rows :: "match_row list" where
  \<comment> \<open>a first row whose winner and loser carry the same name\<close>
  "same_name_rows =
     [plain_row 20200101 1 2020 ''A'' ''A'' ''Hard'' None,
      plain_row 20200102 1 2020 ''A'' ''B'' ''Hard'' None]"




definition outcomes :: "string \<Rightarrow> match_row list \<Rightarrow> int list" where
  \<comment> \<open>what the rows append to \<open>recent_results[p]\<close>: 1 for a win, 0 for a loss, in row order\<close>
  "outcomes p rows =
     concat (map (\<lambda>r. (if winner_player_name r = p then [1] else []) @
                        (if loser_player_name r = p then [0] else [])) rows)"

definition ranked_row :: "int option \<Rightarrow> int option \<Rightarrow> match_row" where
  \<comment> \<open>a row with the two rank cells given\<close>
  "ranked_row w l =
     (plain_row 20200101 1 2020 ''A'' ''B'' ''Hard'' None)\<lparr>winner_atp_rank := w, loser_atp_rank := l\<rparr>"



section \<open>Properties\<close>

subsection \<open>The loop over the rows\<close>


lemma trackers_after_Nil: "trackers_after step st [] = st"
  by (simp add: trackers_after_def)

lemma trackers_after_Cons:
  "trackers_after step st (r # rs) = trackers_after step (snd (step st r)) rs"
  by (simp add: trackers_after_def)

lemma trackers_after_snoc:
  "trackers_after step st (rs @ [r]) = snd (step (trackers_after step st rs) r)"
  by (simp add: trackers_after_def)

lemma iterrows_nth:
  "i < length rs \<Longrightarrow>
   iterrows step st rs ! i = fst (step (trackers_after step st (take i rs)) (rs ! i))"
proof (induction rs arbitrary: st i)
  case Nil
  then show ?case by simp
next
  case (Cons r rs)
  show ?case
  proof (cases i)
    case 0
    then show ?thesis by (simp add: trackers_after_Nil split: prod.splits)
  next
    case (Suc j)
    with Cons.prems have "j < length rs" by simp
    from Cons.IH [OF this] Suc show ?thesis
      by (simp add: trackers_after_Cons split: prod.splits)
  qed
qed

lemma length_sort_values: "length (sort_values df) = length df"
  by (simp add: sort_values_def)

subsection \<open>Strings\<close>



lemma concat_split_from:
  "concat (split_from cur s) = rev cur @ filter (\<lambda>c. \<not> is_space c) s"
  by (induction s arbitrary: cur) auto

lemma concat_split: "concat (split s) = filter (\<lambda>c. \<not> is_space c) s"
  by (simp add: split_def concat_split_from)




subsection \<open>Tiebreak counts\<close>

lemma count_set_eq:
  "count_set b (w, p) t =
     (w + (if credited b t then 1 else 0), p + (if tiebreak_set t then 1 else 0))"
  by (simp add: count_set_def credited_def tiebreak_set_def has_76_def has_67_def)

lemma foldl_count_set:
  "foldl (count_set b) (w, p) ts =
     (w + length (filter (credited b) ts), p + length (filter tiebreak_set ts))"
  by (induction ts arbitrary: w p) (simp_all add: count_set_eq)

lemma count_tiebreaks_Some:
  "count_tiebreaks_in_score (Some s) b =
     (length (filter (credited b) (split (strip s))), length (filter tiebreak_set (split (strip s))))"
  by (cases "s = []") (simp_all add: count_tiebreaks_in_score_def foldl_count_set split_def strip_def)

lemma credited_split:
  "length (filter (credited True) ts) + length (filter (credited False) ts) = length (filter tiebreak_set ts)"
  by (induction ts) (auto simp: credited_def tiebreak_set_def)

text \<open>
  C1 (amended). The player who won the match is credited with a tiebreak win for every set
  token that contains \<open>7-6\<close>; a set token that contains \<open>6-7\<close> and not \<open>7-6\<close> is credited to
  the player who lost the match. Every set token that contains \<open>7-6\<close> or \<open>6-7\<close> counts as one
  tiebreak played, for the winner's call and for the loser's call alike. For the score
  \<open>3-6 6-7(5) 2-6\<close> the winner of the match gets one tiebreak played and none won, the loser
  one played and one won.
\<close>

theorem tiebreak_attribution:
  "fst (count_tiebreaks_in_score (Some s) True) = length (filter has_76 (split (strip s))) \<and>
   fst (count_tiebreaks_in_score (Some s) False)
     = length (filter (\<lambda>t. \<not> has_76 t \<and> has_67 t) (split (strip s))) \<and>
   snd (count_tiebreaks_in_score (Some s) True)
     = length (filter (\<lambda>t. has_76 t \<or> has_67 t) (split (strip s))) \<and>
   snd (count_tiebreaks_in_score (Some s) False)
     = length (filter (\<lambda>t. has_76 t \<or> has_67 t) (split (strip s))) \<and>
   count_tiebreaks_in_score (Some ''3-6 6-7(5) 2-6'') True = (0, 1) \<and>
   count_tiebreaks_in_score (Some ''3-6 6-7(5) 2-6'') False = (1, 1)"
proof -
  have "credited True = has_76" and "credited False = (\<lambda>t. \<not> has_76 t \<and> has_67 t)"
    by (simp_all add: credited_def fun_eq_iff)
  moreover have "tiebreak_set = (\<lambda>t. has_76 t \<or> has_67 t)"
    by (simp add: tiebreak_set_def fun_eq_iff)
  moreover have "count_tiebreaks_in_score (Some ''3-6 6-7(5) 2-6'') True = (0, 1)" by code_simp
  moreover have "count_tiebreaks_in_score (Some ''3-6 6-7(5) 2-6'') False = (1, 1)" by code_simp
  ultimately show ?thesis by (simp add: count_tiebreaks_Some)
qed

theorem tiebreak_attribution_witness:
  "count_tiebreaks_in_score (Some ''6-7(5) 6-7(3) 7-6(2) 6-4 6-4'') True = (1, 3) \<and>
   count_tiebreaks_in_score (Some ''6-7(5) 6-7(3) 7-6(2) 6-4 6-4'') False = (2, 3) \<and>
   length (filter has_76 (split (strip ''6-7(5) 6-7(3) 7-6(2) 6-4 6-4''))) = 1 \<and>
   length (filter (\<lambda>t. \<not> has_76 t \<and> has_67 t) (split (strip ''6-7(5) 6-7(3) 7-6(2) 6-4 6-4''))) = 2 \<and>
   length (filter (\<lambda>t. has_76 t \<or> has_67 t) (split (strip ''6-7(5) 6-7(3) 7-6(2) 6-4 6-4''))) = 3"
proof -
  have a: "count_tiebreaks_in_score (Some ''6-7(5) 6-7(3) 7-6(2) 6-4 6-4'') True = (1, 3)"
    by code_simp
  have b: "count_tiebreaks_in_score (Some ''6-7(5) 6-7(3) 7-6(2) 6-4 6-4'') False = (2, 3)"
    by code_simp
  show ?thesis
    using tiebreak_attribution [of "''6-7(5) 6-7(3) 7-6(2) 6-4 6-4''"] by (simp add: a b)
qed

text \<open>
  C1 as the specification has it fails: for \<open>3-6 6-7(5) 2-6\<close> the winner of the match is
  credited with no tiebreak win, not with one.
\<close>

theorem tiebreak_attribution_counterexample:
  "count_tiebreaks_in_score (Some ''3-6 6-7(5) 2-6'') True = (0, 1) \<and>
   count_tiebreaks_in_score (Some ''3-6 6-7(5) 2-6'') True \<noteq> (1, 1)"
proof -
  have "count_tiebreaks_in_score (Some ''3-6 6-7(5) 2-6'') True = (0, 1)" by code_simp
  then show ?thesis by simp
qed

text \<open>
  C9. For every score, the call for the winner and the call for the loser return the same
  number of tiebreaks played, and the tiebreaks won by the two add up to that number.
\<close>

theorem tiebreak_symmetry:
  "snd (count_tiebreaks_in_score score True) = snd (count_tiebreaks_in_score score False) \<and>
   fst (count_tiebreaks_in_score score True) + fst (count_tiebreaks_in_score score False)
     = snd (count_tiebreaks_in_score score True)"
proof (cases score)
  case None
  then show ?thesis by (simp add: count_tiebreaks_in_score_def)
next
  case (Some s)
  then show ?thesis by (simp add: count_tiebreaks_Some credited_split)
qed

theorem tiebreak_symmetry_witness:
  "snd (count_tiebreaks_in_score (Some ''6-7(5) 7-6(3) 6-4'') True) = 2 \<and>
   fst (count_tiebreaks_in_score (Some ''6-7(5) 7-6(3) 6-4'') True) = 1 \<and>
   fst (count_tiebreaks_in_score (Some ''6-7(5) 7-6(3) 6-4'') False) = 1"
proof -
  have a: "count_tiebreaks_in_score (Some ''6-7(5) 7-6(3) 6-4'') True = (1, 2)" by code_simp
  have b: "fst (count_tiebreaks_in_score (Some ''6-7(5) 7-6(3) 6-4'') False) = 1"
    using tiebreak_symmetry [of "Some ''6-7(5) 7-6(3) 6-4''"] by (simp add: a)
  show ?thesis using a b by simp
qed

subsection \<open>Year-to-date records\<close>

lemma sort_values_scenario:
  "sort_values scenario_rows =
     [plain_row 20200101 1 2020 ''A'' ''B'' ''Hard'' (Some ''7-6(3) 6-1''),
      plain_row 20200201 1 2020 ''A'' ''C'' ''Clay'' None,
      plain_row 20200301 1 2020 ''B'' ''A'' ''Hard'' (Some ''6-7(3) 7-6(2) 6-1'')]"
  by (simp add: sort_values_def scenario_rows_def sort_columns_def plain_row_def)

lemma yearly_wins_step:
  "yearly_wins (snd (yearly_step st r)) p y = yearly_wins st p y + (if won_by p y r then 1 else 0)"
  by (simp add: yearly_step_def Let_def won_by_def add_to2_def)

lemma yearly_losses_step:
  "yearly_losses (snd (yearly_step st r)) p y = yearly_losses st p y + (if lost_by p y r then 1 else 0)"
  by (simp add: yearly_step_def Let_def lost_by_def add_to2_def)

lemma yearly_wins_after:
  "yearly_wins (trackers_after yearly_step st rs) p y
     = yearly_wins st p y + length (filter (won_by p y) rs)"
  by (induction rs arbitrary: st) (simp_all add: trackers_after_Nil trackers_after_Cons yearly_wins_step)

lemma yearly_losses_after:
  "yearly_losses (trackers_after yearly_step st rs) p y
     = yearly_losses st p y + length (filter (lost_by p y) rs)"
  by (induction rs arbitrary: st) (simp_all add: trackers_after_Nil trackers_after_Cons yearly_losses_step)

lemma yearly_columns_step:
  "winner_wins_ytd (fst (yearly_step st r)) = yearly_wins st (winner_player_name r) (tournament_year r)"
  "winner_losses_ytd (fst (yearly_step st r)) = yearly_losses st (winner_player_name r) (tournament_year r)"
  "loser_wins_ytd (fst (yearly_step st r)) = yearly_wins st (loser_player_name r) (tournament_year r)"
  "loser_losses_ytd (fst (yearly_step st r)) = yearly_losses st (loser_player_name r) (tournament_year r)"
  by (simp_all add: yearly_step_def Let_def)

lemma appears_count:
  "\<forall>r \<in> set rs. winner_player_name r \<noteq> loser_player_name r \<Longrightarrow>
   length (filter (won_by p y) rs) + length (filter (lost_by p y) rs) = length (filter (appears p y) rs)"
  by (induction rs) (auto simp: won_by_def lost_by_def appears_def)

lemma ytd_columns_nth:
  assumes "i < length df"
  shows "winner_wins_ytd (compute_yearly_stats df ! i) =
           length (filter (won_by (winner_player_name (sort_values df ! i))
             (tournament_year (sort_values df ! i))) (take i (sort_values df)))"
    and "winner_losses_ytd (compute_yearly_stats df ! i) =
           length (filter (lost_by (winner_player_name (sort_values df ! i))
             (tournament_year (sort_values df ! i))) (take i (sort_values df)))"
    and "loser_wins_ytd (compute_yearly_stats df ! i) =
           length (filter (won_by (loser_player_name (sort_values df ! i))
             (tournament_year (sort_values df ! i))) (take i (sort_values df)))"
    and "loser_losses_ytd (compute_yearly_stats df ! i) =
           length (filter (lost_by (loser_player_name (sort_values df ! i))
             (tournament_year (sort_values df ! i))) (take i (sort_values df)))"
  using assms
  by (simp_all add: compute_yearly_stats_def iterrows_nth length_sort_values yearly_columns_step
      yearly_wins_after yearly_losses_after yearly_start_def)

text \<open>
  C2 (amended). For every row of the sorted pass and each of its two players, the
  year-to-date wins plus losses emitted at the row are the number of strictly earlier
  rows of the row's tournament year that the player won plus the number that the player
  lost. When no earlier row names one player as both winner and loser, this is the number
  of earlier matches of that year in which the player appears.
\<close>

theorem ytd_no_lookahead:
  assumes "i < length df"
  shows "(let s = sort_values df; r = s ! i; out = compute_yearly_stats df ! i;
              y = tournament_year r; w = winner_player_name r; l = loser_player_name r
          in winner_wins_ytd out + winner_losses_ytd out
               = length (filter (won_by w y) (take i s)) + length (filter (lost_by w y) (take i s)) \<and>
             loser_wins_ytd out + loser_losses_ytd out
               = length (filter (won_by l y) (take i s)) + length (filter (lost_by l y) (take i s)) \<and>
             ((\<forall>q \<in> set (take i s). winner_player_name q \<noteq> loser_player_name q) \<longrightarrow>
                winner_wins_ytd out + winner_losses_ytd out = length (filter (appears w y) (take i s)) \<and>
                loser_wins_ytd out + loser_losses_ytd out = length (filter (appears l y) (take i s))))"
  using assms by (simp add: Let_def ytd_columns_nth appears_count)

theorem ytd_no_lookahead_witness:
  "(2::nat) < length scenario_rows \<and>
   winner_player_name (sort_values scenario_rows ! 2) = ''B'' \<and>
   loser_player_name (sort_values scenario_rows ! 2) = ''A'' \<and>
   winner_wins_ytd (compute_yearly_stats scenario_rows ! 2)
     + winner_losses_ytd (compute_yearly_stats scenario_rows ! 2) = 1 \<and>
   loser_wins_ytd (compute_yearly_stats scenario_rows ! 2)
     + loser_losses_ytd (compute_yearly_stats scenario_rows ! 2) = 2"
proof -
  have len: "(2::nat) < length scenario_rows" by (simp add: scenario_rows_def)
  have tk: "take 2 (sort_values scenario_rows) =
     [plain_row 20200101 1 2020 ''A'' ''B'' ''Hard'' (Some ''7-6(3) 6-1''),
      plain_row 20200201 1 2020 ''A'' ''C'' ''Clay'' None]"
    by (simp add: sort_values_scenario)
  have nth: "sort_values scenario_rows ! 2 =
      plain_row 20200301 1 2020 ''B'' ''A'' ''Hard'' (Some ''6-7(3) 7-6(2) 6-1'')"
    by (simp add: sort_values_scenario)
  show ?thesis
    using ytd_no_lookahead [OF len] len
    by (simp add: Let_def tk nth plain_row_def appears_def won_by_def lost_by_def)
qed

text \<open>
  C2 as the specification has it fails on a row that names one player as winner and as
  loser: that row adds a win and a loss, so at the next row of A the counters add up to
  two although A appears in one earlier match.
\<close>

theorem ytd_no_lookahead_counterexample:
  "winner_player_name (sort_values same_name_rows ! 1) = ''A'' \<and>
   tournament_year (sort_values same_name_rows ! 1) = 2020 \<and>
   winner_wins_ytd (compute_yearly_stats same_name_rows ! 1)
     + winner_losses_ytd (compute_yearly_stats same_name_rows ! 1) = 2 \<and>
   length (filter (appears ''A'' 2020) (take 1 (sort_values same_name_rows))) = 1"
  by (simp add: same_name_rows_def compute_yearly_stats_def sort_values_def sort_columns_def
      plain_row_def yearly_step_def yearly_start_def add_to2_def appears_def Let_def)

subsection \<open>Head-to-head records\<close>

lemma pair_key_eq_iff:
  "pair_key w l = pair_key a b \<longleftrightarrow> (w = a \<and> l = b) \<or> (w = b \<and> l = a)"
  by (auto simp: pair_key_def split: if_splits)

lemma h2h_total_step:
  "h2h_total (snd (h2h_step recs r)) k =
     h2h_total recs k + (if pair_key (winner_player_name r) (loser_player_name r) = k then 1 else 0)"
  by (simp add: h2h_step_def h2h_total_def pair_key_def Let_def)

lemma h2h_total_after:
  "h2h_total (trackers_after h2h_step recs rs) k =
     h2h_total recs k
       + length (filter (\<lambda>r. pair_key (winner_player_name r) (loser_player_name r) = k) rs)"
  by (induction rs arbitrary: recs) (simp_all add: trackers_after_Nil trackers_after_Cons h2h_total_step)

lemma h2h_columns_total:
  "winner_h2h_wins (fst (h2h_step recs r)) + winner_h2h_losses (fst (h2h_step recs r))
     = h2h_total recs (pair_key (winner_player_name r) (loser_player_name r))"
  by (simp add: h2h_step_def h2h_total_def pair_key_def Let_def)

lemma h2h_columns_mirror:
  "winner_h2h_losses (fst (h2h_step recs r)) = loser_h2h_wins (fst (h2h_step recs r))"
  by (simp add: h2h_step_def Let_def)

lemma meeting_pair_key:
  "(\<lambda>q. pair_key (winner_player_name q) (loser_player_name q) = pair_key a b) = meeting a b"
  by (auto simp: fun_eq_iff meeting_def pair_key_eq_iff)

text \<open>
  C3. At every row of the sorted pass, the head-to-head wins plus losses emitted for the
  winner are the number of strictly earlier rows between the same two players, and the
  winner's head-to-head losses are the loser's head-to-head wins.
\<close>

theorem h2h_snapshot_symmetry:
  assumes "i < length df"
  shows "(let s = sort_values df; r = s ! i; out = compute_h2h_stats df ! i
          in winner_h2h_wins out + winner_h2h_losses out
               = length (filter (meeting (winner_player_name r) (loser_player_name r)) (take i s)) \<and>
             winner_h2h_losses out = loser_h2h_wins out)"
proof -
  let ?s = "sort_values df"
  let ?recs = "trackers_after h2h_step h2h_start (take i ?s)"
  have out: "compute_h2h_stats df ! i = fst (h2h_step ?recs (?s ! i))"
    using assms by (simp add: compute_h2h_stats_def iterrows_nth length_sort_values)
  have "h2h_total h2h_start k = 0" for k
    by (simp add: h2h_total_def h2h_start_def)
  then have "h2h_total ?recs (pair_key (winner_player_name (?s ! i)) (loser_player_name (?s ! i)))
      = length (filter (meeting (winner_player_name (?s ! i)) (loser_player_name (?s ! i))) (take i ?s))"
    by (simp add: h2h_total_after meeting_pair_key)
  then have total:
    "winner_h2h_wins (fst (h2h_step ?recs (?s ! i))) + winner_h2h_losses (fst (h2h_step ?recs (?s ! i)))
      = length (filter (meeting (winner_player_name (?s ! i)) (loser_player_name (?s ! i))) (take i ?s))"
    by (simp only: h2h_columns_total)
  have mirror:
    "winner_h2h_losses (fst (h2h_step ?recs (?s ! i))) = loser_h2h_wins (fst (h2h_step ?recs (?s ! i)))"
    by (rule h2h_columns_mirror)
  show ?thesis
    unfolding Let_def out using total mirror by (rule conjI)
qed

theorem h2h_snapshot_symmetry_witness:
  "(2::nat) < length scenario_rows \<and>
   winner_h2h_wins (compute_h2h_stats scenario_rows ! 2)
     + winner_h2h_losses (compute_h2h_stats scenario_rows ! 2) = 1 \<and>
   winner_h2h_losses (compute_h2h_stats scenario_rows ! 2) = 1 \<and>
   loser_h2h_wins (compute_h2h_stats scenario_rows ! 2) = 1"
proof -
  have len: "(2::nat) < length scenario_rows" by (simp add: scenario_rows_def)
  have l: "winner_h2h_losses (compute_h2h_stats scenario_rows ! 2) = 1"
    by (simp add: compute_h2h_stats_def sort_values_scenario plain_row_def h2h_step_def
        h2h_start_def Let_def)
  show ?thesis
    using h2h_snapshot_symmetry [OF len] len l
    by (simp add: Let_def sort_values_scenario plain_row_def meeting_def)
qed

subsection \<open>Dates\<close>



lemma days_before_month_Suc:
  "1 \<le> m \<Longrightarrow> days_before_month y (m + 1) = days_before_month y m + days_in_month y m"
proof -
  assume "1 \<le> m"
  then have "[1..m] = [1..m - 1] @ [m]" by (rule upto_rec2)
  then show ?thesis by (simp add: days_before_month_def)
qed




lemma upto_1_12: "[1..12::int] = [1,2,3,4,5,6,7,8,9,10,11,12]"
  by (simp add: upto.simps)

lemma days_before_month_13:
  "days_before_month y 13 = (if is_leap y then 366 else 365)"
  by (simp add: days_before_month_def upto_1_12 days_in_month_def)

lemma div_step:
  fixes y k :: int
  assumes "0 < k"
  shows "y div k - (y - 1) div k = (if y mod k = 0 then 1 else 0)"
proof (cases "y mod k = 0")
  case True
  then have "y = k * (y div k)" by (simp add: mod_eq_0_iff_dvd)
  then have "y - 1 = k * (y div k - 1) + (k - 1)" by (simp add: algebra_simps)
  moreover have "0 \<le> k - 1" "k - 1 < k" using assms by simp_all
  ultimately have "(y - 1) div k = y div k - 1" by (rule int_div_pos_eq)
  with True show ?thesis by simp
next
  case False
  have "0 \<le> y mod k" "y mod k < k" using assms by simp_all
  with False have "0 \<le> y mod k - 1" "y mod k - 1 < k" by linarith+
  moreover have "y - 1 = k * (y div k) + (y mod k - 1)" by simp
  ultimately have "(y - 1) div k = y div k" by (intro int_div_pos_eq)
  with False show ?thesis by simp
qed

lemma mod_chain:
  fixes y :: int
  shows "y mod 400 = 0 \<Longrightarrow> y mod 100 = 0" and "y mod 100 = 0 \<Longrightarrow> y mod 4 = 0"
proof -
  have a: "(100::int) dvd 400" and b: "(4::int) dvd 100" by simp_all
  show "y mod 400 = 0 \<Longrightarrow> y mod 100 = 0"
    using a by (simp only: mod_eq_0_iff_dvd) (rule dvd_trans)
  show "y mod 100 = 0 \<Longrightarrow> y mod 4 = 0"
    using b by (simp only: mod_eq_0_iff_dvd) (rule dvd_trans)
qed

lemma days_before_year_Suc:
  "days_before_year (y + 1) = days_before_year y + (if is_leap y then 366 else 365)"
proof -
  define q4 q100 q400 where "q4 = y div 4" and "q100 = y div 100" and "q400 = y div 400"
  define p4 p100 p400 where "p4 = (y - 1) div 4" and "p100 = (y - 1) div 100"
    and "p400 = (y - 1) div 400"
  define a b c where "a = q4 - p4" and "b = q100 - p100" and "c = q400 - p400"
  have e1: "days_before_year (y + 1) = y * 365 + q4 - q100 + q400"
    by (simp add: days_before_year_def q4_def q100_def q400_def)
  have e2: "days_before_year y = (y - 1) * 365 + p4 - p100 + p400"
    by (simp add: days_before_year_def Let_def p4_def p100_def p400_def)
  have diff: "days_before_year (y + 1) = days_before_year y + 365 + a - b + c"
    unfolding e1 e2 a_def b_def c_def by (simp add: algebra_simps)
  have a: "a = (if y mod 4 = 0 then 1 else 0)"
    unfolding a_def q4_def p4_def by (rule div_step) simp
  have b: "b = (if y mod 100 = 0 then 1 else 0)"
    unfolding b_def q100_def p100_def by (rule div_step) simp
  have c: "c = (if y mod 400 = 0 then 1 else 0)"
    unfolding c_def q400_def p400_def by (rule div_step) simp
  show ?thesis
  proof (cases "y mod 4 = 0")
    case False
    with mod_chain(2) [of y] have h: "y mod 100 \<noteq> 0" by fastforce
    with mod_chain(1) [of y] have "y mod 400 \<noteq> 0" by fastforce
    note h this
    with False show ?thesis unfolding diff a b c is_leap_def by simp
  next
    case four: True
    show ?thesis
    proof (cases "y mod 100 = 0")
      case False
      with mod_chain(1) [of y] have "y mod 400 \<noteq> 0" by fastforce
      with four False show ?thesis unfolding diff a b c is_leap_def by simp
    next
      case True
      with four show ?thesis unfolding diff a b c is_leap_def by simp
    qed
  qed
qed









lemma toordinal_next_day:
  "toordinal y m (d + 1) = toordinal y m d + 1"
  "1 \<le> m \<Longrightarrow> toordinal y (m + 1) 1 = toordinal y m (days_in_month y m) + 1"
  "toordinal (y + 1) 1 1 = toordinal y 12 31 + 1"
proof -
  show "toordinal y m (d + 1) = toordinal y m d + 1" by (simp add: toordinal_def)
  show "toordinal y (m + 1) 1 = toordinal y m (days_in_month y m) + 1" if "1 \<le> m"
    using that by (simp add: toordinal_def days_before_month_Suc)
  have "days_before_month y 13 = days_before_month y 12 + days_in_month y 12"
    using days_before_month_Suc [of 12 y] by simp
  then have "days_before_month y 12 + 31 = (if is_leap y then 366 else 365)"
    by (simp add: days_before_month_13 days_in_month_def)
  moreover have "days_before_month (y + 1) 1 = 0" by (simp add: days_before_month_def)
  ultimately show "toordinal (y + 1) 1 1 = toordinal y 12 31 + 1"
    unfolding toordinal_def days_before_year_Suc by (simp split: if_splits)
qed

subsection \<open>Fatigue\<close>


lemma fatigue_step_Inr:
  assumes "fatigue_step st r = Inr (out, st')"
  obtains d where "to_datetime (tournament_date r) = Inr d"
    and "winner_days_since_last_match out = days_since (last_match_date st) (winner_player_name r) d"
    and "loser_days_since_last_match out = days_since (last_match_date st) (loser_player_name r) d"
    and "last_match_date st' =
           (last_match_date st)(winner_player_name r \<mapsto> d, loser_player_name r \<mapsto> d)"
  using assms
  by (auto simp: fatigue_step_def Let_def split: sum.splits)


lemma fatigue_loop_Cons_Inr:
  assumes "fatigue_loop st (r # rs) = Inr outs"
  obtains out st' outs' where "fatigue_step st r = Inr (out, st')"
    and "fatigue_loop st' rs = Inr outs'" and "outs = out # outs'"
  using assms by (auto split: sum.splits)



lemma fatigue_loop_dates:
  "fatigue_loop st rs = Inr outs \<Longrightarrow> r \<in> set rs \<Longrightarrow> \<exists>d. to_datetime (tournament_date r) = Inr d"
proof (induction rs arbitrary: st outs)
  case Nil
  then show ?case by simp
next
  case (Cons q rs)
  from Cons.prems(1) obtain out st' outs' where step: "fatigue_step st q = Inr (out, st')"
    and rest: "fatigue_loop st' rs = Inr outs'"
    by (rule fatigue_loop_Cons_Inr)
  from step obtain d where "to_datetime (tournament_date q) = Inr d" by (rule fatigue_step_Inr)
  with Cons.IH [OF rest] Cons.prems(2) show ?case by auto
qed

lemma fatigue_loop_returns:
  "\<forall>r \<in> set rs. \<exists>d. to_datetime (tournament_date r) = Inr d \<Longrightarrow> \<exists>outs. fatigue_loop st rs = Inr outs"
proof (induction rs arbitrary: st)
  case Nil
  then show ?case by simp
next
  case (Cons q rs)
  then obtain d where d: "to_datetime (tournament_date q) = Inr d" by auto
  then obtain out st' where step: "fatigue_step st q = Inr (out, st')"
    by (simp add: fatigue_step_def Let_def)
  from Cons obtain outs' where "fatigue_loop st' rs = Inr outs'" by fastforce
  with step show ?case by simp
qed






lemma fatigue_returns_iff:
  "(\<exists>outs. compute_fatigue_and_experience df = Inr outs) \<longleftrightarrow>
   (\<forall>r \<in> set df. \<exists>d. to_datetime (tournament_date r) = Inr d)"
proof
  assume "\<exists>outs. compute_fatigue_and_experience df = Inr outs"
  then obtain outs where "fatigue_loop fatigue_start (sort_values df) = Inr outs"
    by (auto simp: compute_fatigue_and_experience_def)
  then have "\<forall>r \<in> set (sort_values df). \<exists>d. to_datetime (tournament_date r) = Inr d"
    using fatigue_loop_dates by blast
  then show "\<forall>r \<in> set df. \<exists>d. to_datetime (tournament_date r) = Inr d"
    by (simp add: sort_values_def)
next
  assume "\<forall>r \<in> set df. \<exists>d. to_datetime (tournament_date r) = Inr d"
  then have "\<forall>r \<in> set (sort_values df). \<exists>d. to_datetime (tournament_date r) = Inr d"
    by (simp add: sort_values_def)
  then show "\<exists>outs. compute_fatigue_and_experience df = Inr outs"
    unfolding compute_fatigue_and_experience_def by (rule fatigue_loop_returns)
qed



subsection \<open>Recent form\<close>

lemma sum_list_binary:
  fixes xs :: "int list"
  assumes "\<forall>x \<in> set xs. x = 0 \<or> x = 1"
  shows "0 \<le> sum_list xs" and "sum_list xs \<le> int (length xs)"
  using assms by (induction xs) auto

lemma last_n_bounds:
  fixes xs :: "int list"
  assumes "\<forall>x \<in> set xs. x = 0 \<or> x = 1"
  shows "0 \<le> sum_list (last_n n xs)" and "sum_list (last_n n xs) \<le> int n"
proof -
  have b: "\<forall>x \<in> set (last_n n xs). x = 0 \<or> x = 1"
    using assms by (auto simp: last_n_def dest: in_set_dropD)
  from sum_list_binary(1) [OF b] show "0 \<le> sum_list (last_n n xs)" .
  have "sum_list (last_n n xs) \<le> int (length (last_n n xs))" by (rule sum_list_binary(2) [OF b])
  also have "\<dots> \<le> int n" by (simp add: last_n_def)
  finally show "sum_list (last_n n xs) \<le> int n" .
qed

lemma last_n_mono:
  fixes xs :: "int list"
  assumes "\<forall>x \<in> set xs. x = 0 \<or> x = 1" and "m \<le> n"
  shows "sum_list (last_n m xs) \<le> sum_list (last_n n xs)"
proof -
  let ?k = "(length xs - m) - (length xs - n)"
  have "length xs - m = ?k + (length xs - n)" using assms(2) by simp
  then have "last_n m xs = drop ?k (last_n n xs)"
    unfolding last_n_def by (metis drop_drop)
  moreover have "sum_list (last_n n xs) = sum_list (take ?k (last_n n xs)) + sum_list (drop ?k (last_n n xs))"
    by (metis append_take_drop_id sum_list_append)
  moreover have "0 \<le> sum_list (take ?k (last_n n xs))"
    by (rule sum_list_binary(1)) (use assms(1) in \<open>auto simp: last_n_def dest!: in_set_takeD in_set_dropD\<close>)
  ultimately show ?thesis by simp
qed

lemma form_columns_step:
  "winner_last5_wins (fst (form_step rr r)) = sum_list (last_n 5 (rr (winner_player_name r)))"
  "winner_last10_wins (fst (form_step rr r)) = sum_list (last_n 10 (rr (winner_player_name r)))"
  "loser_last5_wins (fst (form_step rr r)) = sum_list (last_n 5 (rr (loser_player_name r)))"
  "loser_last10_wins (fst (form_step rr r)) = sum_list (last_n 10 (rr (loser_player_name r)))"
  by (simp_all add: form_step_def Let_def)

lemma form_step_results:
  "snd (form_step rr r) p =
     rr p @ (if winner_player_name r = p then [1] else []) @ (if loser_player_name r = p then [0] else [])"
  by (simp add: form_step_def Let_def)

lemma form_results_after:
  "trackers_after form_step rr rs p = rr p @ outcomes p rs"
  by (induction rs arbitrary: rr)
     (simp_all add: trackers_after_Nil trackers_after_Cons form_step_results outcomes_def)

lemma form_columns_nth:
  assumes "i < length df"
  shows "winner_last5_wins (compute_recent_form df ! i)
           = sum_list (last_n 5 (outcomes (winner_player_name (sort_values df ! i)) (take i (sort_values df))))"
    and "winner_last10_wins (compute_recent_form df ! i)
           = sum_list (last_n 10 (outcomes (winner_player_name (sort_values df ! i)) (take i (sort_values df))))"
    and "loser_last5_wins (compute_recent_form df ! i)
           = sum_list (last_n 5 (outcomes (loser_player_name (sort_values df ! i)) (take i (sort_values df))))"
    and "loser_last10_wins (compute_recent_form df ! i)
           = sum_list (last_n 10 (outcomes (loser_player_name (sort_values df ! i)) (take i (sort_values df))))"
  using assms
  by (simp_all add: compute_recent_form_def iterrows_nth length_sort_values form_columns_step
      form_results_after form_start_def)

lemma outcomes_binary: "\<forall>x \<in> set (outcomes p rows). x = 0 \<or> x = 1"
  by (auto simp: outcomes_def)

text \<open>
  C7. At every row of the sorted pass the emitted last-5 and last-10 counts, of the winner
  and of the loser, are the sums of the final five and ten outcomes of the player's
  strictly earlier rows, and so 0 \<open>\<le>\<close> last5 \<open>\<le>\<close> 5, 0 \<open>\<le>\<close> last10 \<open>\<le>\<close> 10 and
  last5 \<open>\<le>\<close> last10.
\<close>

theorem recent_form_bounds:
  assumes "i < length df"
  shows "(let s = sort_values df; r = s ! i; out = compute_recent_form df ! i;
              w = outcomes (winner_player_name r) (take i s);
              l = outcomes (loser_player_name r) (take i s)
          in winner_last5_wins out = sum_list (last_n 5 w) \<and>
             winner_last10_wins out = sum_list (last_n 10 w) \<and>
             loser_last5_wins out = sum_list (last_n 5 l) \<and>
             loser_last10_wins out = sum_list (last_n 10 l) \<and>
             0 \<le> winner_last5_wins out \<and> winner_last5_wins out \<le> 5 \<and>
             0 \<le> winner_last10_wins out \<and> winner_last10_wins out \<le> 10 \<and>
             winner_last5_wins out \<le> winner_last10_wins out \<and>
             0 \<le> loser_last5_wins out \<and> loser_last5_wins out \<le> 5 \<and>
             0 \<le> loser_last10_wins out \<and> loser_last10_wins out \<le> 10 \<and>
             loser_last5_wins out \<le> loser_last10_wins out)"
proof -
  note b = outcomes_binary
  show ?thesis
    unfolding Let_def form_columns_nth [OF assms]
    using last_n_bounds [OF b, of 5] last_n_bounds [OF b, of 10] last_n_mono [OF b, of 5 10]
    by simp
qed

theorem recent_form_bounds_witness:
  "(2::nat) < length scenario_rows \<and>
   winner_last5_wins (compute_recent_form scenario_rows ! 2) = 0 \<and>
   winner_last10_wins (compute_recent_form scenario_rows ! 2) = 0 \<and>
   loser_last5_wins (compute_recent_form scenario_rows ! 2) = 2 \<and>
   loser_last10_wins (compute_recent_form scenario_rows ! 2) = 2"
proof -
  have len: "(2::nat) < length scenario_rows" by (simp add: scenario_rows_def)
  show ?thesis
    using recent_form_bounds [OF len] len
    by (simp add: Let_def sort_values_scenario plain_row_def outcomes_def last_n_def)
qed

subsection \<open>Upset flag\<close>

text \<open>
  C10. When the rank of the winner or of the loser is missing the upset flag is 0; the flag
  is 1 exactly when both ranks are present and the winner's rank is greater than the
  loser's; it is never anything but 0 or 1.
\<close>

theorem upset_flag:
  "(winner_atp_rank row = None \<or> loser_atp_rank row = None \<longrightarrow> is_upset row = 0) \<and>
   (is_upset row = 1 \<longleftrightarrow>
      (\<exists>w l. winner_atp_rank row = Some w \<and> loser_atp_rank row = Some l \<and> w > l)) \<and>
   (is_upset row = 0 \<or> is_upset row = 1)"
  by (auto simp: is_upset_def gt_nan_def astype_int_def split: option.splits)

theorem upset_flag_witness:
  "is_upset (ranked_row None (Some 3)) = 0 \<and> is_upset (ranked_row (Some 50) None) = 0 \<and>
   is_upset (ranked_row (Some 50) (Some 3)) = 1 \<and> is_upset (ranked_row (Some 3) (Some 50)) = 0 \<and>
   is_upset (ranked_row (Some 3) (Some 3)) = 0"
proof -
  have a: "winner_atp_rank (ranked_row w l) = w" "loser_atp_rank (ranked_row w l) = l" for w l
    by (simp_all add: ranked_row_def plain_row_def)
  show ?thesis
    using upset_flag [of "ranked_row None (Some 3)"] upset_flag [of "ranked_row (Some 50) None"]
      upset_flag [of "ranked_row (Some 50) (Some 3)"] upset_flag [of "ranked_row (Some 3) (Some 50)"]
      upset_flag [of "ranked_row (Some 3) (Some 3)"]
    by (auto simp: a)
qed

subsection \<open>Percentages\<close>

lemma round2_zero: "round2 0 = 0"
  by (simp add: round2_def round_half_even_def)

lemma pct_zero: "pct won 0 = 0"
  by (simp add: pct_def)

lemma rate_zero: "rate cnt 0 = 0"
  by (simp add: rate_def)

lemma calc_pct_zero: "wins + losses = 0 \<Longrightarrow> calc_pct wins losses = 0"
  by (simp add: calc_pct_def pct_def)

lemma yearly_pct_columns:
  "winner_win_pct_ytd (fst (yearly_step st r)) =
     round2 (pct (int (winner_wins_ytd (fst (yearly_step st r))))
       (int (winner_wins_ytd (fst (yearly_step st r)) + winner_losses_ytd (fst (yearly_step st r)))))"
  "loser_win_pct_ytd (fst (yearly_step st r)) =
     round2 (pct (int (loser_wins_ytd (fst (yearly_step st r))))
       (int (loser_wins_ytd (fst (yearly_step st r)) + loser_losses_ytd (fst (yearly_step st r)))))"
  by (simp_all add: yearly_step_def Let_def)

lemma yearly_zero_policy:
  "winner_wins_ytd (fst (yearly_step st r)) + winner_losses_ytd (fst (yearly_step st r)) = 0 \<Longrightarrow>
     winner_win_pct_ytd (fst (yearly_step st r)) = 0"
  "loser_wins_ytd (fst (yearly_step st r)) + loser_losses_ytd (fst (yearly_step st r)) = 0 \<Longrightarrow>
     loser_win_pct_ytd (fst (yearly_step st r)) = 0"
  by (simp_all only: yearly_pct_columns int_ops pct_zero round2_zero)

lemma bp_tb_pct_columns:
  "winner_bp_pct_ytd (bp_tb_read st r) = round2 (pct (winner_bp_won_ytd (bp_tb_read st r)) (winner_bp_faced_ytd (bp_tb_read st r)))"
  "loser_bp_pct_ytd (bp_tb_read st r) = round2 (pct (loser_bp_won_ytd (bp_tb_read st r)) (loser_bp_faced_ytd (bp_tb_read st r)))"
  "winner_bp_pct_career (bp_tb_read st r) = round2 (pct (winner_bp_won_career (bp_tb_read st r)) (winner_bp_faced_career (bp_tb_read st r)))"
  "loser_bp_pct_career (bp_tb_read st r) = round2 (pct (loser_bp_won_career (bp_tb_read st r)) (loser_bp_faced_career (bp_tb_read st r)))"
  "winner_tb_pct_ytd (bp_tb_read st r) = round2 (pct (int (winner_tb_won_ytd (bp_tb_read st r))) (int (winner_tb_played_ytd (bp_tb_read st r))))"
  "loser_tb_pct_ytd (bp_tb_read st r) = round2 (pct (int (loser_tb_won_ytd (bp_tb_read st r))) (int (loser_tb_played_ytd (bp_tb_read st r))))"
  "winner_tb_pct_career (bp_tb_read st r) = round2 (pct (int (winner_tb_won_career (bp_tb_read st r))) (int (winner_tb_played_career (bp_tb_read st r))))"
  "loser_tb_pct_career (bp_tb_read st r) = round2 (pct (int (loser_tb_won_career (bp_tb_read st r))) (int (loser_tb_played_career (bp_tb_read st r))))"
  by (simp_all add: bp_tb_read_def Let_def)

lemma bp_tb_zero_policy:
  "winner_bp_faced_ytd (fst (bp_tb_step st r)) = 0 \<Longrightarrow> winner_bp_pct_ytd (fst (bp_tb_step st r)) = 0"
  "loser_bp_faced_ytd (fst (bp_tb_step st r)) = 0 \<Longrightarrow> loser_bp_pct_ytd (fst (bp_tb_step st r)) = 0"
  "winner_bp_faced_career (fst (bp_tb_step st r)) = 0 \<Longrightarrow> winner_bp_pct_career (fst (bp_tb_step st r)) = 0"
  "loser_bp_faced_career (fst (bp_tb_step st r)) = 0 \<Longrightarrow> loser_bp_pct_career (fst (bp_tb_step st r)) = 0"
  "winner_tb_played_ytd (fst (bp_tb_step st r)) = 0 \<Longrightarrow> winner_tb_pct_ytd (fst (bp_tb_step st r)) = 0"
  "loser_tb_played_ytd (fst (bp_tb_step st r)) = 0 \<Longrightarrow> loser_tb_pct_ytd (fst (bp_tb_step st r)) = 0"
  "winner_tb_played_career (fst (bp_tb_step st r)) = 0 \<Longrightarrow> winner_tb_pct_career (fst (bp_tb_step st r)) = 0"
  "loser_tb_played_career (fst (bp_tb_step st r)) = 0 \<Longrightarrow> loser_tb_pct_career (fst (bp_tb_step st r)) = 0"
  by (simp_all only: bp_tb_step_def fst_conv bp_tb_pct_columns int_ops pct_zero round2_zero)

lemma surface_pct_columns:
  "winner_clay_win_pct (fst (surface_step st r)) = round2 (calc_pct (winner_clay_wins (fst (surface_step st r))) (winner_clay_losses (fst (surface_step st r))))"
  "winner_grass_win_pct (fst (surface_step st r)) = round2 (calc_pct (winner_grass_wins (fst (surface_step st r))) (winner_grass_losses (fst (surface_step st r))))"
  "winner_hard_win_pct (fst (surface_step st r)) = round2 (calc_pct (winner_hard_wins (fst (surface_step st r))) (winner_hard_losses (fst (surface_step st r))))"
  "loser_clay_win_pct (fst (surface_step st r)) = round2 (calc_pct (loser_clay_wins (fst (surface_step st r))) (loser_clay_losses (fst (surface_step st r))))"
  "loser_grass_win_pct (fst (surface_step st r)) = round2 (calc_pct (loser_grass_wins (fst (surface_step st r))) (loser_grass_losses (fst (surface_step st r))))"
  "loser_hard_win_pct (fst (surface_step st r)) = round2 (calc_pct (loser_hard_wins (fst (surface_step st r))) (loser_hard_losses (fst (surface_step st r))))"
  by (simp_all add: surface_step_def Let_def)

lemma surface_zero_policy:
  "winner_clay_wins (fst (surface_step st r)) + winner_clay_losses (fst (surface_step st r)) = 0 \<Longrightarrow> winner_clay_win_pct (fst (surface_step st r)) = 0"
  "winner_grass_wins (fst (surface_step st r)) + winner_grass_losses (fst (surface_step st r)) = 0 \<Longrightarrow> winner_grass_win_pct (fst (surface_step st r)) = 0"
  "winner_hard_wins (fst (surface_step st r)) + winner_hard_losses (fst (surface_step st r)) = 0 \<Longrightarrow> winner_hard_win_pct (fst (surface_step st r)) = 0"
  "loser_clay_wins (fst (surface_step st r)) + loser_clay_losses (fst (surface_step st r)) = 0 \<Longrightarrow> loser_clay_win_pct (fst (surface_step st r)) = 0"
  "loser_grass_wins (fst (surface_step st r)) + loser_grass_losses (fst (surface_step st r)) = 0 \<Longrightarrow> loser_grass_win_pct (fst (surface_step st r)) = 0"
  "loser_hard_wins (fst (surface_step st r)) + loser_hard_losses (fst (surface_step st r)) = 0 \<Longrightarrow> loser_hard_win_pct (fst (surface_step st r)) = 0"
  by (simp_all only: surface_pct_columns calc_pct_zero round2_zero)

lemma serve_columns_step:
  "winner_first_serve_pct_career (fst (serve_step st r)) = round2 (pct (first_serves_in (st (winner_player_name r))) (first_serves_total (st (winner_player_name r))))"
  "winner_aces_per_service_game (fst (serve_step st r)) = round2 (rate (aces (st (winner_player_name r))) (service_games (st (winner_player_name r))))"
  "winner_df_per_service_game (fst (serve_step st r)) = round2 (rate (dfs (st (winner_player_name r))) (service_games (st (winner_player_name r))))"
  "loser_first_serve_pct_career (fst (serve_step st r)) = round2 (pct (first_serves_in (st (loser_player_name r))) (first_serves_total (st (loser_player_name r))))"
  "loser_aces_per_service_game (fst (serve_step st r)) = round2 (rate (aces (st (loser_player_name r))) (service_games (st (loser_player_name r))))"
  "loser_df_per_service_game (fst (serve_step st r)) = round2 (rate (dfs (st (loser_player_name r))) (service_games (st (loser_player_name r))))"
  by (simp_all add: serve_step_def Let_def)

lemma serve_zero_policy:
  "first_serves_total (st (winner_player_name r)) = 0 \<Longrightarrow> winner_first_serve_pct_career (fst (serve_step st r)) = 0"
  "service_games (st (winner_player_name r)) = 0 \<Longrightarrow> winner_aces_per_service_game (fst (serve_step st r)) = 0"
  "service_games (st (winner_player_name r)) = 0 \<Longrightarrow> winner_df_per_service_game (fst (serve_step st r)) = 0"
  "first_serves_total (st (loser_player_name r)) = 0 \<Longrightarrow> loser_first_serve_pct_career (fst (serve_step st r)) = 0"
  "service_games (st (loser_player_name r)) = 0 \<Longrightarrow> loser_aces_per_service_game (fst (serve_step st r)) = 0"
  "service_games (st (loser_player_name r)) = 0 \<Longrightarrow> loser_df_per_service_game (fst (serve_step st r)) = 0"
  by (simp_all only: serve_columns_step pct_zero rate_zero round2_zero)

lemma pct_expr_returns: "pct_expr won tot = Inr (pct won tot)"
  by (simp add: pct_expr_def pct_def truediv_def)

lemma rate_expr_returns: "rate_expr cnt games = Inr (rate cnt games)"
  by (simp add: rate_expr_def rate_def truediv_def)

lemma iterrows_first: "0 < length rs \<Longrightarrow> iterrows step st rs ! 0 = fst (step st (rs ! 0))"
  using iterrows_nth [of 0 rs step st] by (simp add: trackers_after_Nil)

text \<open>
  C5. At every row of the sorted pass, each emitted percentage or rate whose denominator,
  as read before the row, is zero has the value 0: the year-to-date win percentage, the
  breakpoint and tiebreak percentages (year-to-date and career), the three surface win
  percentages, the career first-serve percentage and the ace and double-fault rates, for
  the winner and for the loser. The guarded expressions never raise: with a zero
  denominator they return 0, and otherwise the quotient.
\<close>

theorem zero_denominator_policy:
  assumes "i < length df"
  shows "(let s = sort_values df; r = s ! i;
              yo = compute_yearly_stats df ! i;
              bo = compute_breakpoint_and_tiebreak_stats df ! i;
              so = compute_surface_specific_stats df ! i;
              vo = compute_serve_stats df ! i;
              vs = trackers_after serve_step serve_start (take i s);
              w = vs (winner_player_name r); l = vs (loser_player_name r)
          in (winner_wins_ytd yo + winner_losses_ytd yo = 0 \<longrightarrow> winner_win_pct_ytd yo = 0) \<and>
             (loser_wins_ytd yo + loser_losses_ytd yo = 0 \<longrightarrow> loser_win_pct_ytd yo = 0) \<and>
             (winner_bp_faced_ytd bo = 0 \<longrightarrow> winner_bp_pct_ytd bo = 0) \<and>
             (loser_bp_faced_ytd bo = 0 \<longrightarrow> loser_bp_pct_ytd bo = 0) \<and>
             (winner_bp_faced_career bo = 0 \<longrightarrow> winner_bp_pct_career bo = 0) \<and>
             (loser_bp_faced_career bo = 0 \<longrightarrow> loser_bp_pct_career bo = 0) \<and>
             (winner_tb_played_ytd bo = 0 \<longrightarrow> winner_tb_pct_ytd bo = 0) \<and>
             (loser_tb_played_ytd bo = 0 \<longrightarrow> loser_tb_pct_ytd bo = 0) \<and>
             (winner_tb_played_career bo = 0 \<longrightarrow> winner_tb_pct_career bo = 0) \<and>
             (loser_tb_played_career bo = 0 \<longrightarrow> loser_tb_pct_career bo = 0) \<and>
             (winner_clay_wins so + winner_clay_losses so = 0 \<longrightarrow> winner_clay_win_pct so = 0) \<and>
             (winner_grass_wins so + winner_grass_losses so = 0 \<longrightarrow> winner_grass_win_pct so = 0) \<and>
             (winner_hard_wins so + winner_hard_losses so = 0 \<longrightarrow> winner_hard_win_pct so = 0) \<and>
             (loser_clay_wins so + loser_clay_losses so = 0 \<longrightarrow> loser_clay_win_pct so = 0) \<and>
             (loser_grass_wins so + loser_grass_losses so = 0 \<longrightarrow> loser_grass_win_pct so = 0) \<and>
             (loser_hard_wins so + loser_hard_losses so = 0 \<longrightarrow> loser_hard_win_pct so = 0) \<and>
             (first_serves_total w = 0 \<longrightarrow> winner_first_serve_pct_career vo = 0) \<and>
             (service_games w = 0 \<longrightarrow>
                winner_aces_per_service_game vo = 0 \<and> winner_df_per_service_game vo = 0) \<and>
             (first_serves_total l = 0 \<longrightarrow> loser_first_serve_pct_career vo = 0) \<and>
             (service_games l = 0 \<longrightarrow>
                loser_aces_per_service_game vo = 0 \<and> loser_df_per_service_game vo = 0)) \<and>
         pct_expr won 0 = Inr 0 \<and> rate_expr cnt 0 = Inr 0 \<and>
         pct_expr won tot = Inr (pct won tot) \<and> rate_expr cnt games = Inr (rate cnt games)"
proof -
  let ?s = "sort_values df"
  have i: "i < length ?s" using assms by (simp add: length_sort_values)
  have yo: "compute_yearly_stats df ! i
      = fst (yearly_step (trackers_after yearly_step yearly_start (take i ?s)) (?s ! i))"
    unfolding compute_yearly_stats_def using i by (rule iterrows_nth)
  have bo: "compute_breakpoint_and_tiebreak_stats df ! i
      = fst (bp_tb_step (trackers_after bp_tb_step bp_tb_start (take i ?s)) (?s ! i))"
    unfolding compute_breakpoint_and_tiebreak_stats_def using i by (rule iterrows_nth)
  have so: "compute_surface_specific_stats df ! i
      = fst (surface_step (trackers_after surface_step surface_start (take i ?s)) (?s ! i))"
    unfolding compute_surface_specific_stats_def using i by (rule iterrows_nth)
  have vo: "compute_serve_stats df ! i
      = fst (serve_step (trackers_after serve_step serve_start (take i ?s)) (?s ! i))"
    unfolding compute_serve_stats_def using i by (rule iterrows_nth)
  have "pct_expr won 0 = Inr 0" "rate_expr cnt 0 = Inr 0"
    by (simp_all add: pct_expr_def rate_expr_def)
  then show ?thesis
    unfolding Let_def yo bo so vo
    using yearly_zero_policy bp_tb_zero_policy surface_zero_policy serve_zero_policy
    by (simp add: pct_expr_returns rate_expr_returns)
qed

theorem zero_denominator_policy_witness:
  "(0::nat) < length scenario_rows \<and>
   winner_win_pct_ytd (compute_yearly_stats scenario_rows ! 0) = 0 \<and>
   loser_win_pct_ytd (compute_yearly_stats scenario_rows ! 0) = 0 \<and>
   winner_bp_pct_ytd (compute_breakpoint_and_tiebreak_stats scenario_rows ! 0) = 0 \<and>
   loser_bp_pct_ytd (compute_breakpoint_and_tiebreak_stats scenario_rows ! 0) = 0 \<and>
   winner_bp_pct_career (compute_breakpoint_and_tiebreak_stats scenario_rows ! 0) = 0 \<and>
   loser_bp_pct_career (compute_breakpoint_and_tiebreak_stats scenario_rows ! 0) = 0 \<and>
   winner_tb_pct_ytd (compute_breakpoint_and_tiebreak_stats scenario_rows ! 0) = 0 \<and>
   loser_tb_pct_ytd (compute_breakpoint_and_tiebreak_stats scenario_rows ! 0) = 0 \<and>
   winner_tb_pct_career (compute_breakpoint_and_tiebreak_stats scenario_rows ! 0) = 0 \<and>
   loser_tb_pct_career (compute_breakpoint_and_tiebreak_stats scenario_rows ! 0) = 0 \<and>
   winner_clay_win_pct (compute_surface_specific_stats scenario_rows ! 0) = 0 \<and>
   winner_grass_win_pct (compute_surface_specific_stats scenario_rows ! 0) = 0 \<and>
   winner_hard_win_pct (compute_surface_specific_stats scenario_rows ! 0) = 0 \<and>
   loser_clay_win_pct (compute_surface_specific_stats scenario_rows ! 0) = 0 \<and>
   loser_grass_win_pct (compute_surface_specific_stats scenario_rows ! 0) = 0 \<and>
   loser_hard_win_pct (compute_surface_specific_stats scenario_rows ! 0) = 0 \<and>
   winner_first_serve_pct_career (compute_serve_stats scenario_rows ! 0) = 0 \<and>
   winner_aces_per_service_game (compute_serve_stats scenario_rows ! 0) = 0 \<and>
   winner_df_per_service_game (compute_serve_stats scenario_rows ! 0) = 0 \<and>
   loser_first_serve_pct_career (compute_serve_stats scenario_rows ! 0) = 0 \<and>
   loser_aces_per_service_game (compute_serve_stats scenario_rows ! 0) = 0 \<and>
   loser_df_per_service_game (compute_serve_stats scenario_rows ! 0) = 0"
proof -
  have len: "(0::nat) < length scenario_rows" by (simp add: scenario_rows_def)
  have len_s: "0 < length (sort_values scenario_rows)" by (simp add: sort_values_scenario)
  have yearly:
    "winner_wins_ytd (compute_yearly_stats scenario_rows ! 0) = 0"
    "winner_losses_ytd (compute_yearly_stats scenario_rows ! 0) = 0"
    "loser_wins_ytd (compute_yearly_stats scenario_rows ! 0) = 0"
    "loser_losses_ytd (compute_yearly_stats scenario_rows ! 0) = 0"
    by (simp_all add: compute_yearly_stats_def iterrows_first [OF len_s] yearly_step_def
        yearly_start_def Let_def)
  have bp_tb:
    "winner_bp_faced_ytd (compute_breakpoint_and_tiebreak_stats scenario_rows ! 0) = 0"
    "loser_bp_faced_ytd (compute_breakpoint_and_tiebreak_stats scenario_rows ! 0) = 0"
    "winner_bp_faced_career (compute_breakpoint_and_tiebreak_stats scenario_rows ! 0) = 0"
    "loser_bp_faced_career (compute_breakpoint_and_tiebreak_stats scenario_rows ! 0) = 0"
    "winner_tb_played_ytd (compute_breakpoint_and_tiebreak_stats scenario_rows ! 0) = 0"
    "loser_tb_played_ytd (compute_breakpoint_and_tiebreak_stats scenario_rows ! 0) = 0"
    "winner_tb_played_career (compute_breakpoint_and_tiebreak_stats scenario_rows ! 0) = 0"
    "loser_tb_played_career (compute_breakpoint_and_tiebreak_stats scenario_rows ! 0) = 0"
    by (simp_all add: compute_breakpoint_and_tiebreak_stats_def iterrows_first [OF len_s]
        bp_tb_step_def bp_tb_read_def bp_tb_start_def Let_def)
  have surface:
    "winner_clay_wins (compute_surface_specific_stats scenario_rows ! 0) = 0"
    "winner_clay_losses (compute_surface_specific_stats scenario_rows ! 0) = 0"
    "winner_grass_wins (compute_surface_specific_stats scenario_rows ! 0) = 0"
    "winner_grass_losses (compute_surface_specific_stats scenario_rows ! 0) = 0"
    "winner_hard_wins (compute_surface_specific_stats scenario_rows ! 0) = 0"
    "winner_hard_losses (compute_surface_specific_stats scenario_rows ! 0) = 0"
    "loser_clay_wins (compute_surface_specific_stats scenario_rows ! 0) = 0"
    "loser_clay_losses (compute_surface_specific_stats scenario_rows ! 0) = 0"
    "loser_grass_wins (compute_surface_specific_stats scenario_rows ! 0) = 0"
    "loser_grass_losses (compute_surface_specific_stats scenario_rows ! 0) = 0"
    "loser_hard_wins (compute_surface_specific_stats scenario_rows ! 0) = 0"
    "loser_hard_losses (compute_surface_specific_stats scenario_rows ! 0) = 0"
    by (simp_all add: compute_surface_specific_stats_def iterrows_first [OF len_s]
        surface_step_def surface_start_def Let_def)
  have serve: "first_serves_total (serve_start p) = 0" "service_games (serve_start p) = 0" for p
    by (simp_all add: serve_start_def)
  show ?thesis
    using zero_denominator_policy [OF len] len
    by (simp add: Let_def yearly bp_tb surface serve trackers_after_Nil)
qed

subsection \<open>Set tokens\<close>





















subsection \<open>The order of the pass\<close>










end
